theory Spec2Isabelle
  imports Complex_Main
begin

section \<open>Data model (packages model and account)\<close>

text \<open>
  Errors are values. \<open>New\<close> is \<open>errors.New\<close>, \<open>Wrap\<close> is \<open>errors.Wrap\<close>,
  \<open>LimitExceededBy\<close> is the \<open>fmt.Errorf\<close> of \<open>validateLimits\<close> and carries the
  amount that the message prints; \<open>Panic\<close> is a run-time panic.
\<close>

datatype error = New string | Wrap error string | LimitExceededBy real | Panic string

text \<open>
  A \<open>time.Time\<close> is kept as the number of seconds since 0001-01-01T00:00:00 UTC, the
  zero value of the Go type. Currency amounts (\<open>float64\<close> in the source) are real
  numbers: rounding and non-finite values are not part of this development.
\<close>

type_synonym Time = int

definition IsZero :: "Time \<Rightarrow> bool" where
  "IsZero t = (t = 0)"

type_synonym EventAction = string

type_synonym CmdAction = string

type_synonym TxnFailureCause = string

definition TxnRead :: EventAction where "TxnRead = ''TxnRead''"



definition AccountDeposited :: EventAction where "AccountDeposited = ''AccountDeposited''"

definition AccountWithdrawn :: EventAction where "AccountWithdrawn = ''AccountWithdrawn''"

definition AccountLimitExceeded :: EventAction where
  "AccountLimitExceeded = ''AccountLimitExceeded''"

definition DuplicateTxn :: EventAction where "DuplicateTxn = ''DuplicateTxn''"

definition DataWritten :: EventAction where "DataWritten = ''DataWritten''"


definition ProcessTxn :: CmdAction where "ProcessTxn = ''ProcessTxn''"

definition DuplicateTxnCause :: TxnFailureCause where "DuplicateTxnCause = ''DuplicateTxn''"

definition DailyLimitsExceeded :: TxnFailureCause where
  "DailyLimitsExceeded = ''DailyLimitsExceeded''"

definition WeeklyLimitsExceeded :: TxnFailureCause where
  "WeeklyLimitsExceeded = ''WeeklyLimitsExceeded''"

definition InsufficientFunds :: TxnFailureCause where
  "InsufficientFunds = ''InsufficientFunds''"

record Transaction =
  ID :: string
  CustomerID :: string
  LoadAmount :: real
  Time :: Time

record TxnRecord =
  NumTxns :: int
  TotalAmount :: real

record State =
  TxnID :: string
  CustID :: string
  TxnTime :: Time
  DailyTxn :: TxnRecord
  WeeklyTxn :: TxnRecord
  StateTotalAmount :: real

record TxnFailure =
  Txn :: Transaction
  Error :: error
  FailureCause :: TxnFailureCause

record CreateTxnReq =
  req_ID :: string
  req_CustomerID :: string
  req_LoadAmount :: string
  req_Time :: string
  req_TimeFmt :: string

record CreateTxnFailure =
  TxnReq :: CreateTxnReq
  fail_Error :: error

definition zeroTransaction :: Transaction where
  "zeroTransaction = \<lparr>ID = [], CustomerID = [], LoadAmount = 0, Time = 0\<rparr>"

definition zeroTxnRecord :: TxnRecord where
  "zeroTxnRecord = \<lparr>NumTxns = 0, TotalAmount = 0\<rparr>"

definition zeroState :: State where
  "zeroState = \<lparr>TxnID = [], CustID = [], TxnTime = 0, DailyTxn = zeroTxnRecord,
     WeeklyTxn = zeroTxnRecord, StateTotalAmount = 0\<rparr>"


text \<open>
  The payload of a command or event is a byte slice in the source, produced by
  \<open>json.Marshal\<close> (or given as raw bytes) and read back by \<open>json.Unmarshal\<close>. The
  payload keeps the value that was marshalled; \<open>NilData\<close> is the nil slice and
  \<open>Opaque\<close> stands for bytes that are not a JSON document.
\<close>

datatype Payload =
    NilData
  | Opaque string
  | TransactionJSON Transaction
  | StateJSON State
  | TxnFailureJSON TxnFailure
  | CreateTxnReqJSON CreateTxnReq
  | CreateTxnFailureJSON CreateTxnFailure

text \<open>
  \<open>json.Unmarshal\<close> into a struct fills the fields whose names match a key of the
  object and leaves every other field at its zero value; keys without a field are
  skipped. The objects of \<open>State\<close> (keys TxnID, CustID, TxnTime, DailyTxn, WeeklyTxn,
  TotalAmount) and of \<open>TxnFailure\<close> (keys Txn, Error, FailureCause) share no key, so
  each decodes into the other type as the zero value, without an error.
\<close>

fun unmarshalState :: "Payload \<Rightarrow> error + State" where
  "unmarshalState (StateJSON s) = Inr s"
| "unmarshalState (TxnFailureJSON f) = Inr zeroState"
| "unmarshalState (TransactionJSON t) = Inr zeroState"
| "unmarshalState (CreateTxnReqJSON r) = Inr zeroState"
| "unmarshalState (CreateTxnFailureJSON c) = Inr zeroState"
| "unmarshalState NilData = Inl (New ''unexpected end of JSON input'')"
| "unmarshalState (Opaque b) = Inl (New ''invalid character'')"


fun unmarshalTransaction :: "Payload \<Rightarrow> error + Transaction" where
  "unmarshalTransaction (TransactionJSON t) = Inr t"
| "unmarshalTransaction (StateJSON s) = Inr zeroTransaction"
| "unmarshalTransaction (TxnFailureJSON f) = Inr zeroTransaction"
| "unmarshalTransaction (CreateTxnFailureJSON c) = Inr zeroTransaction"
| "unmarshalTransaction (CreateTxnReqJSON r) =
     Inl (New ''json: cannot unmarshal string into Go struct field Transaction.load_amount'')"
| "unmarshalTransaction NilData = Inl (New ''unexpected end of JSON input'')"
| "unmarshalTransaction (Opaque b) = Inl (New ''invalid character'')"



record Event =
  ev_id :: string
  aggregateID :: string
  correlationKey :: string
  time :: Time
  action :: EventAction
  data :: Payload
  isReplay :: bool

record EventCfg =
  cfg_AggregateID :: string
  cfg_CorrelationKey :: string
  cfg_Time :: Time
  cfg_Action :: EventAction
  cfg_Data :: Payload
  cfg_IsReplay :: bool

record Cmd =
  cmd_id :: string
  cmd_correlationKey :: string
  cmd_time :: Time
  cmd_action :: CmdAction
  cmd_data :: Payload

text \<open>
  \<open>NewEvent\<close> draws a fresh UUID and, when the configured time is zero, the current
  time. Both come from the environment and are arguments here: \<open>newID\<close> and \<open>now\<close>.
\<close>

definition NewEvent :: "string \<Rightarrow> Time \<Rightarrow> EventCfg \<Rightarrow> error + Event" where
  "NewEvent newID now cfg =
     (if cfg_AggregateID cfg = [] \<or> cfg_Action cfg = []
      then Inl (Wrap (New ''zero value'') ''error validating config'')
      else Inr \<lparr>ev_id = newID, aggregateID = cfg_AggregateID cfg,
                correlationKey = cfg_CorrelationKey cfg,
                time = (if IsZero (cfg_Time cfg) then now else cfg_Time cfg),
                action = cfg_Action cfg, data = cfg_Data cfg,
                isReplay = cfg_IsReplay cfg\<rparr>)"

section \<open>Event store (eventutil/event_store.go)\<close>

record MemoryEventStore =
  store :: "string \<rightharpoonup> Event list"
  eventsIndex :: "Event list"

definition NewMemoryEventStore :: MemoryEventStore where
  "NewMemoryEventStore = \<lparr>store = Map.empty, eventsIndex = []\<rparr>"

definition Fetch :: "MemoryEventStore \<Rightarrow> string \<Rightarrow> Event list" where
  "Fetch s aggID = (case store s aggID of None \<Rightarrow> [] | Some es \<Rightarrow> es)"

definition Insert :: "Event \<Rightarrow> MemoryEventStore \<Rightarrow> error option \<times> MemoryEventStore" where
  "Insert event s =
     (if \<exists>e \<in> set (eventsIndex s). ev_id e = ev_id event then (None, s)
      else if aggregateID event = [] then (Some (New ''aggregate-id is blank''), s)
      else if IsZero (time event) then (Some (New ''time not specified''), s)
      else (None, s\<lparr>store := (store s)(aggregateID event \<mapsto> Fetch s (aggregateID event) @ [event]),
                     eventsIndex := eventsIndex s @ [event]\<rparr>))"

text \<open>
  \<open>FetchByIndex\<close> allocates \<open>numEvents - index\<close> slots and copies from position
  \<open>index\<close> on: with events in the store, an index above their number or below zero
  panics.
\<close>

definition FetchByIndex :: "MemoryEventStore \<Rightarrow> int \<Rightarrow> error + Event list" where
  "FetchByIndex s index =
     (let numEvents = int (length (eventsIndex s)) in
      if index = numEvents \<or> numEvents = 0 then Inr []
      else if index > numEvents then Inl (Panic ''makeslice: len out of range'')
      else if index < 0 then Inl (Panic ''index out of range'')
      else Inr (drop (nat index) (eventsIndex s)))"

section \<open>Unpublished log (eventutil/unpublished_log.go)\<close>

record MemoryUnpublishedLog =
  events :: "Event list"

definition NewMemoryUnpublishedLog :: MemoryUnpublishedLog where
  "NewMemoryUnpublishedLog = \<lparr>events = []\<rparr>"

definition LogInsert :: "Event \<Rightarrow> MemoryUnpublishedLog \<Rightarrow> MemoryUnpublishedLog" where
  "LogInsert event p = p\<lparr>events := events p @ [event]\<rparr>"

text \<open>\<open>Pop\<close> looks for the first stored event with the id of the given one and cuts it out.\<close>

definition Pop :: "Event \<Rightarrow> MemoryUnpublishedLog \<Rightarrow> error option \<times> MemoryUnpublishedLog" where
  "Pop event p =
     (let index = length (takeWhile (\<lambda>storedEvent. ev_id event \<noteq> ev_id storedEvent) (events p)) in
      if index = length (events p) then (Some (New ''event not found in log''), p)
      else (None, p\<lparr>events := take index (events p) @ drop (index + 1) (events p)\<rparr>))"

definition Events :: "MemoryUnpublishedLog \<Rightarrow> Event list" where
  "Events p = events p"

section \<open>Bus (eventutil/bus.go)\<close>

text \<open>
  The bus is modelled for one caller at a time. A Go channel is a reference: it is
  identified by a number, drawn from \<open>nextChannel\<close> when \<open>Subscribe\<close> makes it, and
  the messages sent on it and not yet received are its \<open>buffer\<close>. A send on a full
  channel waits for the receiver; the wait, the locks and the drain routines belong to
  the scheduling of routines and are not part of the state.
\<close>

datatype Msg = NilMsg | CmdMsg Cmd | EventMsg Event | OtherMsg string

record subscription =
  channel :: nat
  isOpen :: bool
  buffer :: "Msg list"

record MemoryBus =
  isTerminating :: bool
  subscriptions :: "string \<rightharpoonup> subscription list"
  nextChannel :: nat

definition NewMemoryBus :: MemoryBus where
  "NewMemoryBus = \<lparr>isTerminating = False, subscriptions = Map.empty, nextChannel = 0\<rparr>"

definition subsOf :: "MemoryBus \<Rightarrow> string \<Rightarrow> subscription list" where
  "subsOf b act = (case subscriptions b act of None \<Rightarrow> [] | Some subs \<Rightarrow> subs)"

definition ensureActionChan :: "string \<Rightarrow> MemoryBus \<Rightarrow> MemoryBus" where
  "ensureActionChan act b =
     (if subscriptions b act = None then b\<lparr>subscriptions := (subscriptions b)(act \<mapsto> [])\<rparr> else b)"

definition send :: "Msg \<Rightarrow> subscription \<Rightarrow> subscription" where
  "send msg sub = (if isOpen sub then sub\<lparr>buffer := buffer sub @ [msg]\<rparr> else sub)"

definition publishAction :: "string \<Rightarrow> Msg \<Rightarrow> MemoryBus \<Rightarrow> error option \<times> MemoryBus" where
  "publishAction act msg b =
     (if isTerminating b then (Some (New ''bus is terminating''), b)
      else let b1 = ensureActionChan act b;
               subs = subsOf b1 act
           in (None, b1\<lparr>subscriptions := (subscriptions b1)(act \<mapsto> map (send msg) subs)\<rparr>))"

fun Publish :: "Msg \<Rightarrow> MemoryBus \<Rightarrow> error option \<times> MemoryBus" where
  "Publish NilMsg b = (Some (New ''got nil message''), b)"
| "Publish (CmdMsg v) b = publishAction (cmd_action v) (CmdMsg v) b"
| "Publish (EventMsg v) b = publishAction (action v) (EventMsg v) b"
| "Publish (OtherMsg v) b = (Some (New ''received message of unknown type''), b)"

text \<open>
  \<open>Subscribe\<close> tests \<open>isTerminating\<close> twice; for one caller the second test cannot
  differ from the first, which has already returned the error.
\<close>

definition Subscribe :: "string \<Rightarrow> MemoryBus \<Rightarrow> (error + nat) \<times> MemoryBus" where
  "Subscribe act b =
     (if act = [] then (Inl (New ''action is blank''), b)
      else if isTerminating b then (Inl (New ''bus is terminating''), b)
      else let b1 = ensureActionChan act b;
               sub = \<lparr>channel = nextChannel b1, isOpen = True, buffer = []\<rparr>
           in (Inr (channel sub),
               b1\<lparr>subscriptions := (subscriptions b1)(act \<mapsto> subsOf b1 act @ [sub]),
                  nextChannel := nextChannel b1 + 1\<rparr>))"

text \<open>
  \<open>Unsubscribe\<close> overwrites the matching entry with the first one and drops the first
  slot. The removed subscription is closed; its channel stays with the receiver.
\<close>

definition Unsubscribe :: "nat \<Rightarrow> string \<Rightarrow> MemoryBus \<Rightarrow> error option \<times> MemoryBus" where
  "Unsubscribe c act b =
     (if act = [] then (Some (New ''action is blank''), b)
      else let subs = subsOf b act in
        if length subs = 0 then (Some (New ''no matching subscription found''), b)
        else let i = length (takeWhile (\<lambda>sub. c \<noteq> channel sub) subs) in
          if i < length subs
          then (None, b\<lparr>subscriptions := (subscriptions b)(act \<mapsto> tl (subs[i := subs ! 0]))\<rparr>)
          else (Some (New ''no matching subscription found''), b))"

text \<open>
  \<open>Terminate\<close> closes every subscription and leaves every action with an empty list.
\<close>

definition Terminate :: "MemoryBus \<Rightarrow> MemoryBus" where
  "Terminate b =
     (if isTerminating b then b
      else b\<lparr>isTerminating := True,
              subscriptions := (\<lambda>act. map_option (\<lambda>subs. []) (subscriptions b act))\<rparr>)"

section \<open>Event repository (LoggedEventRepo)\<close>

text \<open>
  The repository refers to a bus, an event store and an unpublished log. The three
  are fields here; a bus shared with other components is handed on by its owner.
\<close>

record LoggedEventRepo =
  bus :: MemoryBus
  eventStore :: MemoryEventStore
  unpublishedLog :: MemoryUnpublishedLog

fun insertAndPubFromlog_loop :: "Event list \<Rightarrow> LoggedEventRepo \<Rightarrow> error option \<times> LoggedEventRepo" where
  "insertAndPubFromlog_loop [] er = (None, er)"
| "insertAndPubFromlog_loop (event # rest) er =
     (case Insert event (eventStore er) of
        (Some err, s') \<Rightarrow>
          (Some (Wrap err ''error inserting event in event-store''), er\<lparr>eventStore := s'\<rparr>)
      | (None, s') \<Rightarrow>
          (case Publish (EventMsg event) (bus er) of
             (Some err, b') \<Rightarrow>
               (Some (Wrap err ''error publishing event to bus''), er\<lparr>eventStore := s', bus := b'\<rparr>)
           | (None, b') \<Rightarrow>
               (case Pop event (unpublishedLog er) of
                  (Some err, l') \<Rightarrow>
                    (Some (Wrap err ''error popping event from unpublished-log''),
                     er\<lparr>eventStore := s', bus := b', unpublishedLog := l'\<rparr>)
                | (None, l') \<Rightarrow>
                    insertAndPubFromlog_loop rest
                      (er\<lparr>eventStore := s', bus := b', unpublishedLog := l'\<rparr>))))"

definition insertAndPubFromlog :: "LoggedEventRepo \<Rightarrow> error option \<times> LoggedEventRepo" where
  "insertAndPubFromlog er = insertAndPubFromlog_loop (Events (unpublishedLog er)) er"

definition InsertAndPublish :: "Event \<Rightarrow> LoggedEventRepo \<Rightarrow> error option \<times> LoggedEventRepo" where
  "InsertAndPublish event er =
     (let er1 = er\<lparr>unpublishedLog := LogInsert event (unpublishedLog er)\<rparr>;
          (err, er2) = insertAndPubFromlog er1
      in (map_option (\<lambda>e. Wrap e ''error hydrating from unpublished-log'') err, er2))"

definition NewLoggedEventRepo ::
  "MemoryBus \<Rightarrow> MemoryEventStore \<Rightarrow> MemoryUnpublishedLog \<Rightarrow> error + LoggedEventRepo" where
  "NewLoggedEventRepo b s l =
     (case insertAndPubFromlog \<lparr>bus = b, eventStore = s, unpublishedLog = l\<rparr> of
        (Some err, er) \<Rightarrow> Inl (Wrap err ''error hydrating from unpublished-log'')
      | (None, er) \<Rightarrow> Inr er)"

definition RepoFetch :: "LoggedEventRepo \<Rightarrow> string \<Rightarrow> Event list" where
  "RepoFetch er aggID = Fetch (eventStore er) aggID"


section \<open>Calendar fields of a time (Go package time)\<close>

text \<open>
  The fields are those of the UTC instant. \<open>absDate\<close> follows the library's
  computation on the day number: 400-, 100-, 4- and 1-year cycles, counted from
  0001-01-01, a Monday. It returns the year and the zero-based day of the year.
\<close>

definition secondsPerDay :: int where "secondsPerDay = 86400"

definition daysPer400Years :: int where "daysPer400Years = 365 * 400 + 97"

definition daysPer100Years :: int where "daysPer100Years = 365 * 100 + 24"

definition daysPer4Years :: int where "daysPer4Years = 365 * 4 + 1"

definition absDate :: "int \<Rightarrow> int \<times> int" where
  "absDate days =
     (let n400 = days div daysPer400Years;
          d1 = days - daysPer400Years * n400;
          n100 = d1 div daysPer100Years;
          n100' = n100 - n100 div 4;
          d2 = d1 - daysPer100Years * n100';
          n4 = d2 div daysPer4Years;
          d3 = d2 - daysPer4Years * n4;
          n1 = d3 div 365;
          n1' = n1 - n1 div 4;
          d4 = d3 - 365 * n1'
      in (400 * n400 + 100 * n100' + 4 * n4 + n1' + 1, d4))"

definition Year :: "Time \<Rightarrow> int" where
  "Year t = fst (absDate (t div secondsPerDay))"

definition YearDay :: "Time \<Rightarrow> int" where
  "YearDay t = snd (absDate (t div secondsPerDay)) + 1"

text \<open>Sunday is 0, Monday 1, ..., Thursday 4, Saturday 6.\<close>

definition Weekday :: "Time \<Rightarrow> int" where
  "Weekday t = (t div secondsPerDay + 1) mod 7"

text \<open>
  \<open>ISOWeek\<close>: the ISO 8601 year and week of a time are the year of the Thursday of
  its Monday-based week and that Thursday's zero-based day of the year, divided by
  seven, plus one.
\<close>

definition ISOWeek :: "Time \<Rightarrow> int \<times> int" where
  "ISOWeek t =
     (let d = 4 - Weekday t;
          d' = (if d = 4 then - 3 else d);
          (year, yday) = absDate (t div secondsPerDay + d')
      in (year, yday div 7 + 1))"

section \<open>Account aggregate (package account)\<close>

type_synonym TxnTable = "int \<rightharpoonup> (int \<rightharpoonup> TxnRecord)"

record account =
  eventRepo :: LoggedEventRepo
  accountDeposited :: EventAction
  accountWithdrawn :: EventAction
  duplicateTxn :: EventAction
  accountLimitExceeded :: EventAction
  dailyLimits :: TxnRecord
  weeklyLimits :: TxnRecord
  custID :: string
  dailyTxn :: TxnTable
  weeklyTxn :: TxnTable
  balance :: real
  txnKeysRecord :: "string list"

record AggregateCfg =
  EventRepo :: LoggedEventRepo
  cfg_AccountDeposited :: EventAction
  cfg_AccountWithdrawn :: EventAction
  cfg_DuplicateTxn :: EventAction
  cfg_AccountLimitExceeded :: EventAction
  DailyTxnsAmountLimit :: real
  NumDailyTxnsLimit :: int
  WeeklyTxnsAmountLimit :: real
  NumWeeklyTxnsLimit :: int

definition validateCfg :: "AggregateCfg \<Rightarrow> bool" where
  "validateCfg cfg =
     (cfg_AccountDeposited cfg \<noteq> [] \<and> cfg_AccountWithdrawn cfg \<noteq> [] \<and>
      cfg_DuplicateTxn cfg \<noteq> [] \<and> cfg_AccountLimitExceeded cfg \<noteq> [] \<and>
      DailyTxnsAmountLimit cfg \<ge> 0 \<and> NumDailyTxnsLimit cfg \<ge> 0 \<and>
      WeeklyTxnsAmountLimit cfg \<ge> 0 \<and> NumWeeklyTxnsLimit cfg \<ge> 0)"

definition newAccount :: "AggregateCfg \<Rightarrow> error + account" where
  "newAccount cfg =
     (if \<not> validateCfg cfg then Inl (New ''error validating config'')
      else if WeeklyTxnsAmountLimit cfg > 0 \<and> WeeklyTxnsAmountLimit cfg < DailyTxnsAmountLimit cfg
      then Inl (New ''weekly-amount limit must be greater than daily amount limit'')
      else if NumWeeklyTxnsLimit cfg > 0 \<and> NumWeeklyTxnsLimit cfg < NumDailyTxnsLimit cfg
      then Inl (New ''num of weekly-transactions must be greater than num of daily-transactions'')
      else Inr \<lparr>eventRepo = EventRepo cfg,
                accountDeposited = cfg_AccountDeposited cfg,
                accountWithdrawn = cfg_AccountWithdrawn cfg,
                duplicateTxn = cfg_DuplicateTxn cfg,
                accountLimitExceeded = cfg_AccountLimitExceeded cfg,
                dailyLimits = \<lparr>NumTxns = NumDailyTxnsLimit cfg, TotalAmount = DailyTxnsAmountLimit cfg\<rparr>,
                weeklyLimits = \<lparr>NumTxns = NumWeeklyTxnsLimit cfg, TotalAmount = WeeklyTxnsAmountLimit cfg\<rparr>,
                custID = [],
                dailyTxn = Map.empty,
                weeklyTxn = Map.empty,
                balance = 0,
                txnKeysRecord = []\<rparr>)"

text \<open>
  Reading \<open>m[year][key]\<close> from a two-level Go map gives the zero record when either key
  is missing. Writing \<open>m[year][key] = v\<close> needs the inner map to exist and panics
  otherwise.
\<close>

definition lookupTxn :: "TxnTable \<Rightarrow> int \<Rightarrow> int \<Rightarrow> TxnRecord" where
  "lookupTxn m year k =
     (case m year of
        None \<Rightarrow> zeroTxnRecord
      | Some inner \<Rightarrow> (case inner k of None \<Rightarrow> zeroTxnRecord | Some r \<Rightarrow> r))"

definition storeTxn :: "TxnTable \<Rightarrow> int \<Rightarrow> int \<Rightarrow> TxnRecord \<Rightarrow> TxnTable option" where
  "storeTxn m year k v =
     (case m year of
        None \<Rightarrow> None
      | Some inner \<Rightarrow> Some (m(year \<mapsto> inner(k \<mapsto> v))))"

definition ensureYear :: "int \<Rightarrow> account \<Rightarrow> account" where
  "ensureYear year a =
     (let a1 = (if dailyTxn a year = None
                then a\<lparr>dailyTxn := (dailyTxn a)(year \<mapsto> Map.empty)\<rparr> else a)
      in (if weeklyTxn a1 year = None
          then a1\<lparr>weeklyTxn := (weeklyTxn a1)(year \<mapsto> Map.empty)\<rparr> else a1))"

definition publishEvent ::
  "string \<Rightarrow> Time \<Rightarrow> string \<Rightarrow> EventAction \<Rightarrow> Payload \<Rightarrow> account \<Rightarrow> error option \<times> account" where
  "publishEvent newID now correlationKey' action' data' a =
     (case NewEvent newID now
             \<lparr>cfg_AggregateID = custID a, cfg_CorrelationKey = correlationKey',
              cfg_Time = 0, cfg_Action = action', cfg_Data = data', cfg_IsReplay = False\<rparr> of
        Inl err \<Rightarrow> (Some (Wrap err ''error creating event''), a)
      | Inr event \<Rightarrow>
          (let (err, er) = InsertAndPublish event (eventRepo a)
           in (map_option (\<lambda>e. Wrap e ''error storing event in event-repo'') err,
               a\<lparr>eventRepo := er\<rparr>)))"

text \<open>
  \<open>validateLimits\<close> returns the cause (blank for a generic error) and the error. The
  message of the amount limit always subtracts the daily amount limit.
\<close>

definition validateLimits :: "account \<Rightarrow> TxnRecord \<Rightarrow> TxnRecord \<Rightarrow> TxnFailureCause \<times> error option" where
  "validateLimits a currValues limits =
     (if balance a + TotalAmount currValues < 0
      then (InsufficientFunds, Some (New ''balance less than zero''))
      else if NumTxns limits > 0 \<and> NumTxns currValues > NumTxns limits
      then ([], Some (New ''limit exceeded for number of deposits''))
      else if TotalAmount limits > 0 \<and> TotalAmount currValues > TotalAmount limits
      then ([], Some (LimitExceededBy (TotalAmount currValues - TotalAmount (dailyLimits a))))
      else ([], None))"

text \<open>
  \<open>checkDuplicateTxn\<close> returns whether the transaction is unique, the error, and the
  account (whose repository has the published failure).
\<close>

definition checkDuplicateTxn ::
  "string \<Rightarrow> Time \<Rightarrow> string \<Rightarrow> Transaction \<Rightarrow> account \<Rightarrow> bool \<times> error option \<times> account" where
  "checkDuplicateTxn newID now cmdID txn a =
     (if \<exists>txnID \<in> set (txnKeysRecord a). txnID = ID txn
      then (let failure = \<lparr>Txn = txn, Error = New ''duplicate transaction'',
                            FailureCause = DuplicateTxnCause\<rparr>;
                (err, a') = publishEvent newID now cmdID (duplicateTxn a) (TxnFailureJSON failure) a
            in (False, map_option (\<lambda>e. Wrap e ''error publishing event'') err, a'))
      else (True, None, a))"

definition addTxn :: "TxnRecord \<Rightarrow> Transaction \<Rightarrow> TxnRecord" where
  "addTxn r txn = r\<lparr>NumTxns := NumTxns r + 1, TotalAmount := TotalAmount r + LoadAmount txn\<rparr>"

definition checkDailyLimits ::
  "string \<Rightarrow> Time \<Rightarrow> string \<Rightarrow> Transaction \<Rightarrow> account \<Rightarrow> TxnRecord option \<times> error option \<times> account" where
  "checkDailyLimits newID now cmdID txn a =
     (let txnDay = YearDay (Time txn);
          txnYear = Year (Time txn);
          dailyTxnRecord = addTxn (lookupTxn (dailyTxn a) txnYear txnDay) txn
      in case validateLimits a dailyTxnRecord (dailyLimits a) of
           (failureCause, Some err) \<Rightarrow>
             (let failure = \<lparr>Txn = txn, Error = Wrap err ''failed daily-limits validation'',
                             FailureCause = (if failureCause = [] then DailyLimitsExceeded
                                             else failureCause)\<rparr>;
                  (perr, a') = publishEvent newID now cmdID (accountLimitExceeded a)
                                 (TxnFailureJSON failure) a
              in (None, map_option (\<lambda>e. Wrap e ''error publishing event'') perr, a'))
         | (failureCause, None) \<Rightarrow> (Some dailyTxnRecord, None, a))"

definition checkWeeklyLimits ::
  "string \<Rightarrow> Time \<Rightarrow> string \<Rightarrow> Transaction \<Rightarrow> account \<Rightarrow> TxnRecord option \<times> error option \<times> account" where
  "checkWeeklyLimits newID now cmdID txn a =
     (let (txnYear, txnWeek) = ISOWeek (Time txn);
          weeklyTxnRecord = addTxn (lookupTxn (weeklyTxn a) txnYear txnWeek) txn
      in case validateLimits a weeklyTxnRecord (weeklyLimits a) of
           (failureCause, Some err) \<Rightarrow>
             (let failure = \<lparr>Txn = txn, Error = Wrap err ''failed weekly-limits validation'',
                             FailureCause = (if failureCause = [] then WeeklyLimitsExceeded
                                             else failureCause)\<rparr>;
                  (perr, a') = publishEvent newID now cmdID (accountLimitExceeded a)
                                 (TxnFailureJSON failure) a
              in (None, map_option (\<lambda>e. Wrap e ''error publishing event'') perr, a'))
         | (failureCause, None) \<Rightarrow> (Some weeklyTxnRecord, None, a))"

definition applyEvent :: "Event \<Rightarrow> account \<Rightarrow> error option \<times> account" where
  "applyEvent event a =
     (case unmarshalState (data event) of
        Inl err \<Rightarrow> (Some (Wrap err ''error unmarshalling event-data''), a)
      | Inr state \<Rightarrow>
          (let (txnYear, txnWeek) = ISOWeek (TxnTime state);
               txnDay = YearDay (TxnTime state);
               a1 = ensureYear txnYear a
           in case (storeTxn (dailyTxn a1) txnYear txnDay (DailyTxn state),
                    storeTxn (weeklyTxn a1) txnYear txnWeek (WeeklyTxn state)) of
                (Some daily', Some weekly') \<Rightarrow>
                  (None, a1\<lparr>dailyTxn := daily', weeklyTxn := weekly',
                            txnKeysRecord := txnKeysRecord a1 @ [TxnID state],
                            balance := StateTotalAmount state\<rparr>)
              | _ \<Rightarrow> (Some (Panic ''assignment to entry in nil map''), a1)))"

fun applyEvents :: "Event list \<Rightarrow> account \<Rightarrow> error option \<times> account" where
  "applyEvents [] a = (None, a)"
| "applyEvents (event # rest) a =
     (case applyEvent event a of
        (Some err, a') \<Rightarrow> (Some (Wrap err ''error applying event''), a')
      | (None, a') \<Rightarrow> applyEvents rest a')"

definition loadAggregate :: "string \<Rightarrow> account \<Rightarrow> error option \<times> account" where
  "loadAggregate custID' a =
     (let a1 = a\<lparr>custID := custID'\<rparr>
      in applyEvents (RepoFetch (eventRepo a1) custID') a1)"

definition handleProcessTxnCmd ::
  "string \<Rightarrow> Time \<Rightarrow> Cmd \<Rightarrow> account \<Rightarrow> error option \<times> account" where
  "handleProcessTxnCmd newID now cmd a =
     (if cmd_data cmd = NilData then (None, a)
      else case unmarshalTransaction (cmd_data cmd) of
        Inl err \<Rightarrow> (Some (Wrap err ''error unmarshalling event-data''), a)
      | Inr txn \<Rightarrow>
         (case loadAggregate (CustomerID txn) a of
            (Some err, a1) \<Rightarrow> (Some (Wrap err ''error loading aggregate''), a1)
          | (None, a1) \<Rightarrow>
             (let a2 = ensureYear (Year (Time txn)) a1 in
              case checkDuplicateTxn newID now (cmd_id cmd) txn a2 of
                (isUnique, Some err, a3) \<Rightarrow>
                  (Some (Wrap err ''errors validating transaction-uniqueness''), a3)
              | (False, None, a3) \<Rightarrow> (None, a3)
              | (True, None, a3) \<Rightarrow>
                 (case checkDailyLimits newID now (cmd_id cmd) txn a3 of
                    (r, Some err, a4) \<Rightarrow>
                      (Some (Wrap err ''errors validating transaction daily-limits''), a4)
                  | (None, None, a4) \<Rightarrow> (None, a4)
                  | (Some dailyTxnRecord, None, a4) \<Rightarrow>
                     (case checkWeeklyLimits newID now (cmd_id cmd) txn a4 of
                        (r, Some err, a5) \<Rightarrow>
                          (Some (Wrap err ''errors validating transaction daily-limits''), a5)
                      | (None, None, a5) \<Rightarrow> (None, a5)
                      | (Some weeklyTxnRecord, None, a5) \<Rightarrow>
                         (let accEvent = (if LoadAmount txn < 0 then accountWithdrawn a5
                                          else accountDeposited a5);
                              state = \<lparr>TxnID = ID txn, CustID = CustomerID txn,
                                       TxnTime = Time txn, DailyTxn = dailyTxnRecord,
                                       WeeklyTxn = weeklyTxnRecord,
                                       StateTotalAmount = balance a5 + LoadAmount txn\<rparr>;
                              (err, a6) = publishEvent newID now (cmd_id cmd) accEvent
                                            (StateJSON state) a5
                          in (map_option (\<lambda>e. Wrap e ''error publishing event'') err, a6)))))))"

section \<open>Transaction creator (package txn)\<close>

text \<open>
  \<open>strconv.ParseFloat\<close> and \<open>time.Parse\<close> are library functions; the creator takes
  them as arguments: \<open>parseFloat s\<close> is the parsed amount or \<open>None\<close> for an error, and
  \<open>parseTime layout value\<close> the parsed time or \<open>None\<close>.
\<close>

record creator =
  defaultTimeFmt :: string
  tc_eventRepo :: LoggedEventRepo
  txnCreated :: EventAction
  txnCreateFailed :: EventAction

text \<open>
  \<open>createTxn\<close> writes the default format into a request without one, so it returns
  the request as well. The request is never nil: the handler allocates it.
\<close>

definition createTxn ::
  "(string \<Rightarrow> real option) \<Rightarrow> (string \<Rightarrow> string \<Rightarrow> Time option) \<Rightarrow> creator \<Rightarrow> CreateTxnReq
     \<Rightarrow> (error + Transaction) \<times> CreateTxnReq" where
  "createTxn parseFloat parseTime tc txnReq =
     (if req_ID txnReq = [] then (Inl (New ''TransactionID cannot be empty''), txnReq)
      else if req_CustomerID txnReq = [] then (Inl (New ''CustomerID cannot be empty''), txnReq)
      else if req_LoadAmount txnReq = [] \<or> drop 1 (req_LoadAmount txnReq) = []
      then (Inl (New ''LoadAmount cannot be empty''), txnReq)
      else case parseFloat (filter (\<lambda>c. c \<noteq> CHR ''$'') (req_LoadAmount txnReq)) of
        None \<Rightarrow> (Inl (New ''invalid value for LoadAmount''), txnReq)
      | Some loadAmount \<Rightarrow>
         (let txnReq1 = (if req_TimeFmt txnReq = []
                         then txnReq\<lparr>req_TimeFmt := defaultTimeFmt tc\<rparr> else txnReq)
          in case parseTime (req_TimeFmt txnReq1) (req_Time txnReq1) of
               None \<Rightarrow> (Inl (Wrap (New ''parsing time'') ''error parsing time''), txnReq1)
             | Some parsedTime \<Rightarrow>
                 (Inr \<lparr>ID = req_ID txnReq, CustomerID = req_CustomerID txnReq,
                        LoadAmount = loadAmount, Time = parsedTime\<rparr>, txnReq1)))"


section \<open>Transaction-result projection (package accountview)\<close>


record MemoryTxnResultViewRepo =
  serializedIndex :: string
  index :: int










section \<open>The admission algorithm as specified\<close>








section \<open>Publishing a list of events in order\<close>

text \<open>
  The bus reached by publishing the given events one after the other, stopping at the
  first error. It is used to state what a run of the repository has published.
\<close>

fun publishAll :: "Event list \<Rightarrow> MemoryBus \<Rightarrow> error option \<times> MemoryBus" where
  "publishAll [] b = (None, b)"
| "publishAll (e # es) b =
     (case Publish (EventMsg e) b of
        (Some err, b') \<Rightarrow> (Some err, b')
      | (None, b') \<Rightarrow> publishAll es b')"

section \<open>The projection as a function of the event log\<close>






section \<open>Sample values\<close>

text \<open>2000-01-01T00:00:00Z and 2000-01-05T00:00:01Z, in seconds since 0001-01-01.\<close>

definition t_2000_01_01 :: Time where "t_2000_01_01 = 63082281600"

definition t_2000_01_05 :: Time where "t_2000_01_05 = 63082627201"

definition sampleRepo :: LoggedEventRepo where
  "sampleRepo = \<lparr>bus = NewMemoryBus, eventStore = NewMemoryEventStore,
                  unpublishedLog = NewMemoryUnpublishedLog\<rparr>"

text \<open>The limits of the configuration package: 5000 and 3 a day, 20000 a week.\<close>

definition sampleCfg :: AggregateCfg where
  "sampleCfg = \<lparr>EventRepo = sampleRepo,
                 cfg_AccountDeposited = AccountDeposited, cfg_AccountWithdrawn = AccountWithdrawn,
                 cfg_DuplicateTxn = DuplicateTxn, cfg_AccountLimitExceeded = AccountLimitExceeded,
                 DailyTxnsAmountLimit = 5000, NumDailyTxnsLimit = 3,
                 WeeklyTxnsAmountLimit = 20000, NumWeeklyTxnsLimit = 0\<rparr>"

definition sampleAccount :: account where
  "sampleAccount = \<lparr>eventRepo = sampleRepo,
                accountDeposited = AccountDeposited, accountWithdrawn = AccountWithdrawn,
                duplicateTxn = DuplicateTxn, accountLimitExceeded = AccountLimitExceeded,
                dailyLimits = \<lparr>NumTxns = 3, TotalAmount = 5000\<rparr>,
                weeklyLimits = \<lparr>NumTxns = 0, TotalAmount = 20000\<rparr>,
                custID = [], dailyTxn = Map.empty, weeklyTxn = Map.empty,
                balance = 0, txnKeysRecord = []\<rparr>"

definition sampleState :: State where
  "sampleState = \<lparr>TxnID = ''15887'', CustID = ''528'', TxnTime = t_2000_01_01,
                   DailyTxn = \<lparr>NumTxns = 1, TotalAmount = 100\<rparr>,
                   WeeklyTxn = \<lparr>NumTxns = 1, TotalAmount = 100\<rparr>, StateTotalAmount = 100\<rparr>"

definition sampleEvent :: Event where
  "sampleEvent = \<lparr>ev_id = ''e1'', aggregateID = ''528'', correlationKey = ''c1'',
                   time = t_2000_01_01, action = AccountDeposited, data = StateJSON sampleState,
                   isReplay = False\<rparr>"

definition blankEvent :: Event where
  "blankEvent = \<lparr>ev_id = ''e0'', aggregateID = [], correlationKey = [],
                  time = t_2000_01_01, action = AccountDeposited, data = StateJSON sampleState,
                  isReplay = False\<rparr>"


definition txn1000 :: Transaction where
  "txn1000 = \<lparr>ID = ''t2'', CustomerID = ''528'', LoadAmount = 1000, Time = t_2000_01_05\<rparr>"


definition cmd1000 :: Cmd where
  "cmd1000 = \<lparr>cmd_id = ''c9'', cmd_correlationKey = ''k9'', cmd_time = t_2000_01_05,
               cmd_action = ProcessTxn, cmd_data = TransactionJSON txn1000\<rparr>"






text \<open>An account over a store that holds one accepted deposit of 2000-01-01.\<close>

definition janAccount :: account where
  "janAccount = sampleAccount\<lparr>eventRepo := sampleRepo\<lparr>eventStore :=
      \<lparr>store = [''528'' \<mapsto> [sampleEvent]], eventsIndex = [sampleEvent]\<rparr>\<rparr>\<rparr>"

definition txnJan :: Transaction where
  "txnJan = \<lparr>ID = ''15888'', CustomerID = ''528'', LoadAmount = 100, Time = t_2000_01_01\<rparr>"

text \<open>
  The repository after the handler has accepted the deposit of \<open>cmd1000\<close>, and after a
  new aggregate over that repository has handled the same command a second time.
\<close>

definition afterDeposit :: LoggedEventRepo where
  "afterDeposit = eventRepo (snd (handleProcessTxnCmd ''e1'' t_2000_01_05 cmd1000 sampleAccount))"

definition afterDuplicate :: LoggedEventRepo where
  "afterDuplicate = eventRepo (snd (handleProcessTxnCmd ''e2'' t_2000_01_05 cmd1000
                                      (sampleAccount\<lparr>eventRepo := afterDeposit\<rparr>)))"

definition depositEvent :: Event where
  "depositEvent = \<lparr>ev_id = ''e1'', aggregateID = ''528'', correlationKey = ''c9'',
      time = t_2000_01_05, action = AccountDeposited,
      data = StateJSON \<lparr>TxnID = ''t2'', CustID = ''528'', TxnTime = t_2000_01_05,
                DailyTxn = \<lparr>NumTxns = 1, TotalAmount = 1000\<rparr>,
                WeeklyTxn = \<lparr>NumTxns = 1, TotalAmount = 1000\<rparr>, StateTotalAmount = 1000\<rparr>,
      isReplay = False\<rparr>"

definition duplicateEvent :: Event where
  "duplicateEvent = \<lparr>ev_id = ''e2'', aggregateID = ''528'', correlationKey = ''c9'',
      time = t_2000_01_05, action = DuplicateTxn,
      data = TxnFailureJSON \<lparr>Txn = txn1000, Error = New ''duplicate transaction'',
                              FailureCause = DuplicateTxnCause\<rparr>,
      isReplay = False\<rparr>"

definition subscribedBus :: MemoryBus where
  "subscribedBus = snd (Subscribe ''testEvent'' NewMemoryBus)"



section \<open>Sample parsers and requests\<close>










section \<open>Calendar values\<close>

lemma ISOWeek_2000_01_01: "ISOWeek t_2000_01_01 = (1999, 52)"
  by code_simp

lemma Year_2000_01_01: "Year t_2000_01_01 = 2000"
  by code_simp

lemma YearDay_2000_01_01: "YearDay t_2000_01_01 = 1"
  by code_simp

lemma ISOWeek_zero: "ISOWeek 0 = (1, 1)"
  by code_simp

lemma YearDay_zero: "YearDay 0 = 1"
  by code_simp

lemma Year_2000_01_05: "Year t_2000_01_05 = 2000"
  by code_simp

lemma YearDay_2000_01_05: "YearDay t_2000_01_05 = 5"
  by code_simp

lemma ISOWeek_2000_01_05: "ISOWeek t_2000_01_05 = (2000, 1)"
  by code_simp

section \<open>Idempotent insertion\<close>

lemma Insert_known_id:
  "\<exists>x \<in> set (eventsIndex s). ev_id x = ev_id e \<Longrightarrow> Insert e s = (None, s)"
  by (simp add: Insert_def)

lemma Insert_fresh_valid:
  assumes "\<forall>x \<in> set (eventsIndex s). ev_id x \<noteq> ev_id e" "aggregateID e \<noteq> []" "\<not> IsZero (time e)"
  shows "Insert e s = (None, s\<lparr>store := (store s)(aggregateID e \<mapsto> Fetch s (aggregateID e) @ [e]),
                               eventsIndex := eventsIndex s @ [e]\<rparr>)"
  using assms by (auto simp: Insert_def)

lemma Insert_valid_has_id:
  assumes "aggregateID e \<noteq> []" "\<not> IsZero (time e)"
  shows "fst (Insert e s) = None \<and> (\<exists>x \<in> set (eventsIndex (snd (Insert e s))). ev_id x = ev_id e)"
  using assms by (auto simp: Insert_def)

text \<open>
  C8. For an event with a non-empty aggregate-id and a non-zero timestamp, inserting it a
  second time returns no error and leaves the store as the first insertion left it: the
  same store, hence the same \<open>Fetch\<close> of every aggregate and the same \<open>FetchByIndex\<close> at
  every index. An event that is new to the store (no stored event has its id) and has a
  blank aggregate-id or a zero timestamp is rejected with an error, and the store is
  unchanged.
\<close>

theorem Insert_idempotent:
  "(aggregateID e \<noteq> [] \<and> \<not> IsZero (time e) \<longrightarrow>
      fst (Insert e s) = None \<and>
      Insert e (snd (Insert e s)) = (None, snd (Insert e s)) \<and>
      (\<forall>a. Fetch (snd (Insert e (snd (Insert e s)))) a = Fetch (snd (Insert e s)) a) \<and>
      (\<forall>i. FetchByIndex (snd (Insert e (snd (Insert e s)))) i = FetchByIndex (snd (Insert e s)) i))
   \<and>
   ((\<forall>x \<in> set (eventsIndex s). ev_id x \<noteq> ev_id e) \<and> (aggregateID e = [] \<or> IsZero (time e)) \<longrightarrow>
      (\<exists>err. Insert e s = (Some err, s)))"
proof (intro conjI impI)
  assume valid: "aggregateID e \<noteq> [] \<and> \<not> IsZero (time e)"
  then have known: "\<exists>x \<in> set (eventsIndex (snd (Insert e s))). ev_id x = ev_id e"
    and ok: "fst (Insert e s) = None"
    using Insert_valid_has_id[of e s] by simp_all
  show "fst (Insert e s) = None" by (rule ok)
  show again: "Insert e (snd (Insert e s)) = (None, snd (Insert e s))"
    by (rule Insert_known_id[OF known])
  show "\<forall>a. Fetch (snd (Insert e (snd (Insert e s)))) a = Fetch (snd (Insert e s)) a"
    by (simp add: again)
  show "\<forall>i. FetchByIndex (snd (Insert e (snd (Insert e s)))) i = FetchByIndex (snd (Insert e s)) i"
    by (simp add: again)
next
  assume "(\<forall>x \<in> set (eventsIndex s). ev_id x \<noteq> ev_id e) \<and> (aggregateID e = [] \<or> IsZero (time e))"
  then show "\<exists>err. Insert e s = (Some err, s)"
    by (auto simp: Insert_def)
qed

theorem Insert_idempotent_witness:
  "aggregateID sampleEvent \<noteq> [] \<and> \<not> IsZero (time sampleEvent) \<and>
   Insert sampleEvent (snd (Insert sampleEvent NewMemoryEventStore))
     = (None, snd (Insert sampleEvent NewMemoryEventStore)) \<and>
   eventsIndex NewMemoryEventStore = [] \<and>
   aggregateID blankEvent = [] \<and>
   (\<exists>err. Insert blankEvent NewMemoryEventStore = (Some err, NewMemoryEventStore))"
proof -
  have h1: "aggregateID sampleEvent \<noteq> [] \<and> \<not> IsZero (time sampleEvent)"
    by (simp add: sampleEvent_def IsZero_def t_2000_01_01_def)
  have h2: "(\<forall>x \<in> set (eventsIndex NewMemoryEventStore). ev_id x \<noteq> ev_id blankEvent) \<and>
            (aggregateID blankEvent = [] \<or> IsZero (time blankEvent))"
    by (simp add: blankEvent_def NewMemoryEventStore_def)
  have h3: "eventsIndex NewMemoryEventStore = []"
    by (simp add: NewMemoryEventStore_def)
  show ?thesis
    using h1 h2 h3 Insert_idempotent[of sampleEvent NewMemoryEventStore]
      Insert_idempotent[of blankEvent NewMemoryEventStore]
    by (simp add: blankEvent_def)
qed

section \<open>The bus after termination\<close>

lemma Terminate_running:
  "\<not> isTerminating b \<Longrightarrow> isTerminating (Terminate b) \<and> (\<forall>act. subsOf (Terminate b) act = [])"
  by (auto simp: Terminate_def subsOf_def split: option.splits)

lemma Publish_terminating: "isTerminating b \<Longrightarrow> \<exists>err. Publish msg b = (Some err, b)"
  by (cases msg) (simp_all add: publishAction_def)

lemma Subscribe_terminating: "isTerminating b \<Longrightarrow> \<exists>err. Subscribe act b = (Inl err, b)"
  by (simp add: Subscribe_def)

lemma Unsubscribe_empty: "\<forall>act. subsOf b act = [] \<Longrightarrow> \<exists>err. Unsubscribe c act b = (Some err, b)"
  by (simp add: Unsubscribe_def)

text \<open>
  C7 (amended). After \<open>Terminate\<close> on a running bus, every \<open>Publish\<close> returns an error,
  every \<open>Subscribe\<close> returns an error, and every \<open>Unsubscribe\<close>, also of a receiver
  obtained before, returns an error; each call leaves the bus as \<open>Terminate\<close> left it, and
  a second \<open>Terminate\<close> changes nothing, so this holds for all later calls.
\<close>

theorem after_Terminate:
  assumes "\<not> isTerminating b"
  shows "(\<forall>msg. \<exists>err. Publish msg (Terminate b) = (Some err, Terminate b)) \<and>
         (\<forall>act. \<exists>err. Subscribe act (Terminate b) = (Inl err, Terminate b)) \<and>
         (\<forall>c act. \<exists>err. Unsubscribe c act (Terminate b) = (Some err, Terminate b)) \<and>
         Terminate (Terminate b) = Terminate b"
proof -
  from Terminate_running[OF assms] have t: "isTerminating (Terminate b)"
    and e: "\<forall>act. subsOf (Terminate b) act = []" by simp_all
  have "Terminate (Terminate b) = Terminate b" using t by (simp add: Terminate_def)
  then show ?thesis
    using Publish_terminating[OF t] Subscribe_terminating[OF t] Unsubscribe_empty[OF e] by blast
qed

theorem after_Terminate_witness:
  "\<not> isTerminating subscribedBus \<and>
   (\<exists>err. Publish (EventMsg sampleEvent) (Terminate subscribedBus) = (Some err, Terminate subscribedBus)) \<and>
   (\<exists>err. Subscribe ''testEvent'' (Terminate subscribedBus) = (Inl err, Terminate subscribedBus)) \<and>
   (\<exists>err. Unsubscribe 0 ''testEvent'' (Terminate subscribedBus) = (Some err, Terminate subscribedBus))"
proof -
  have h: "\<not> isTerminating subscribedBus"
    by (simp add: subscribedBus_def Subscribe_def NewMemoryBus_def ensureActionChan_def Let_def)
  from after_Terminate[OF h] h show ?thesis by blast
qed

text \<open>
  C7 as stated fails in its last part: \<open>Terminate\<close> empties the subscription lists, and
  \<open>Unsubscribe\<close> of the receiver obtained before returns the error of a missing
  subscription.
\<close>

theorem Unsubscribe_after_Terminate:
  "fst (Subscribe ''testEvent'' NewMemoryBus) = Inr 0 \<and>
   fst (Unsubscribe 0 ''testEvent'' (Terminate (snd (Subscribe ''testEvent'' NewMemoryBus))))
     = Some (New ''no matching subscription found'')"
  by (simp add: Subscribe_def NewMemoryBus_def ensureActionChan_def Let_def Terminate_def
      Unsubscribe_def subsOf_def)

section \<open>The outbox of the event repository\<close>

lemma Insert_mono: "set (eventsIndex s) \<subseteq> set (eventsIndex (snd (Insert e s)))"
  by (auto simp: Insert_def)

lemma Insert_ok_id: "Insert e s = (None, s') \<Longrightarrow> \<exists>x \<in> set (eventsIndex s'). ev_id x = ev_id e"
  by (auto simp: Insert_def split: if_splits)

lemma Insert_error: "Insert e s = (Some err, s') \<Longrightarrow> aggregateID e = [] \<or> IsZero (time e)"
  by (auto simp: Insert_def split: if_splits)

lemma Insert_ok_member:
  "Insert e s = (None, s') \<Longrightarrow> \<forall>x \<in> set (eventsIndex s). ev_id x = ev_id e \<longrightarrow> x = e
     \<Longrightarrow> e \<in> set (eventsIndex s')"
  by (auto simp: Insert_def split: if_splits)

lemma Insert_other_keeps:
  "Insert y s = (r, s') \<Longrightarrow> ev_id y \<noteq> ev_id e \<Longrightarrow>
   \<forall>x \<in> set (eventsIndex s). ev_id x = ev_id e \<longrightarrow> x = e \<Longrightarrow>
   \<forall>x \<in> set (eventsIndex s'). ev_id x = ev_id e \<longrightarrow> x = e"
  by (auto simp: Insert_def split: if_splits)

lemma Publish_event_result:
  "Publish (EventMsg e) b = (r, b') \<Longrightarrow>
     isTerminating b' = isTerminating b \<and> (r = None \<longleftrightarrow> \<not> isTerminating b)"
  by (auto simp: publishAction_def Let_def ensureActionChan_def split: if_splits)

lemma Publish_delivers:
  "Publish (EventMsg e) b = (None, b') \<Longrightarrow>
     \<forall>s \<in> set (subsOf b' (action e)). isOpen s \<longrightarrow> buffer s \<noteq> [] \<and> last (buffer s) = EventMsg e"
  by (auto simp: publishAction_def Let_def ensureActionChan_def subsOf_def send_def split: if_splits)

lemma Pop_first: "events p = x # rest \<Longrightarrow> Pop x p = (None, p\<lparr>events := rest\<rparr>)"
  by (simp add: Pop_def)

lemma publishAll_snoc:
  "publishAll (xs @ [e]) b = (None, b') \<Longrightarrow>
     \<exists>b1. publishAll xs b = (None, b1) \<and> Publish (EventMsg e) b1 = (None, b')"
  by (induction xs arbitrary: b) (auto split: prod.splits option.splits)

lemma loop_mono:
  "insertAndPubFromlog_loop evs er = (r, er') \<Longrightarrow>
     set (eventsIndex (eventStore er)) \<subseteq> set (eventsIndex (eventStore er'))"
proof (induction evs arbitrary: er)
  case Nil
  then show ?case by simp
next
  case (Cons e rest)
  obtain r1 s' where i: "Insert e (eventStore er) = (r1, s')" by (cases "Insert e (eventStore er)")
  have m: "set (eventsIndex (eventStore er)) \<subseteq> set (eventsIndex s')"
    using Insert_mono[of "eventStore er" e] i by simp
  obtain r2 b' where p: "Publish (EventMsg e) (bus er) = (r2, b')"
    by (cases "Publish (EventMsg e) (bus er)")
  obtain r3 l' where q: "Pop e (unpublishedLog er) = (r3, l')" by (cases "Pop e (unpublishedLog er)")
  show ?case
  proof (cases "r1 = None \<and> r2 = None \<and> r3 = None")
    case True
    with Cons.prems i p q have
      "insertAndPubFromlog_loop rest (er\<lparr>eventStore := s', bus := b', unpublishedLog := l'\<rparr>) = (r, er')"
      by simp
    from Cons.IH[OF this] m show ?thesis by auto
  next
    case False
    with Cons.prems i p q have "eventStore er' = s'"
      by (auto split: option.splits)
    with m show ?thesis by simp
  qed
qed

lemma loop_success:
  assumes "insertAndPubFromlog_loop evs er = (None, er')" "events (unpublishedLog er) = evs"
  shows "events (unpublishedLog er') = [] \<and> publishAll evs (bus er) = (None, bus er') \<and>
         (\<forall>e \<in> set evs. \<exists>x \<in> set (eventsIndex (eventStore er')). ev_id x = ev_id e)"
  using assms
proof (induction evs arbitrary: er)
  case Nil
  then show ?case by simp
next
  case (Cons e rest)
  obtain r1 s' where i: "Insert e (eventStore er) = (r1, s')" by (cases "Insert e (eventStore er)")
  obtain r2 b' where p: "Publish (EventMsg e) (bus er) = (r2, b')"
    by (cases "Publish (EventMsg e) (bus er)")
  have q: "Pop e (unpublishedLog er) = (None, (unpublishedLog er)\<lparr>events := rest\<rparr>)"
    using Cons.prems(2) by (rule Pop_first)
  have r1: "r1 = None" using Cons.prems(1) i by (auto split: option.splits)
  have r2: "r2 = None" using Cons.prems(1) i p r1 by (auto split: option.splits)
  let ?er2 = "er\<lparr>eventStore := s', bus := b', unpublishedLog := (unpublishedLog er)\<lparr>events := rest\<rparr>\<rparr>"
  have step: "insertAndPubFromlog_loop rest ?er2 = (None, er')"
    using Cons.prems(1) i p q r1 r2 by simp
  have ih: "events (unpublishedLog er') = [] \<and> publishAll rest (bus ?er2) = (None, bus er') \<and>
         (\<forall>e \<in> set rest. \<exists>x \<in> set (eventsIndex (eventStore er')). ev_id x = ev_id e)"
    by (rule Cons.IH[OF step]) simp
  have "\<exists>x \<in> set (eventsIndex s'). ev_id x = ev_id e"
    using Insert_ok_id i r1 by simp
  moreover have "set (eventsIndex s') \<subseteq> set (eventsIndex (eventStore er'))"
    using loop_mono[OF step] by simp
  ultimately have hd: "\<exists>x \<in> set (eventsIndex (eventStore er')). ev_id x = ev_id e" by blast
  show ?case using ih hd p r2 by simp
qed

lemma loop_member:
  assumes "insertAndPubFromlog_loop evs er = (None, er')" "e \<in> set evs"
    "\<forall>x \<in> set (eventsIndex (eventStore er)). ev_id x = ev_id e \<longrightarrow> x = e"
    "\<forall>x \<in> set evs. ev_id x = ev_id e \<longrightarrow> x = e"
  shows "e \<in> set (eventsIndex (eventStore er'))"
  using assms
proof (induction evs arbitrary: er)
  case Nil
  then show ?case by simp
next
  case (Cons y rest)
  obtain r1 s' where i: "Insert y (eventStore er) = (r1, s')" by (cases "Insert y (eventStore er)")
  obtain r2 b' where p: "Publish (EventMsg y) (bus er) = (r2, b')"
    by (cases "Publish (EventMsg y) (bus er)")
  obtain r3 l' where q: "Pop y (unpublishedLog er) = (r3, l')" by (cases "Pop y (unpublishedLog er)")
  have r1: "r1 = None" using Cons.prems(1) i by (auto split: option.splits)
  have r2: "r2 = None" using Cons.prems(1) i p r1 by (auto split: option.splits)
  have r3: "r3 = None" using Cons.prems(1) i p q r1 r2 by (auto split: option.splits)
  let ?er2 = "er\<lparr>eventStore := s', bus := b', unpublishedLog := l'\<rparr>"
  have step: "insertAndPubFromlog_loop rest ?er2 = (None, er')"
    using Cons.prems(1) i p q r1 r2 r3 by simp
  show ?case
  proof (cases "y = e")
    case True
    have "e \<in> set (eventsIndex s')"
      using Insert_ok_member[of e "eventStore er" s'] i r1 True Cons.prems(3) by simp
    then show ?thesis using loop_mono[OF step] by auto
  next
    case False
    then have ne: "ev_id y \<noteq> ev_id e" using Cons.prems(4) by auto
    have keep: "\<forall>x \<in> set (eventsIndex (eventStore ?er2)). ev_id x = ev_id e \<longrightarrow> x = e"
      using Insert_other_keeps[OF i ne Cons.prems(3)] by simp
    have "e \<in> set rest" using Cons.prems(2) False by simp
    from Cons.IH[OF step this keep] Cons.prems(4) show ?thesis by simp
  qed
qed

lemma loop_failure:
  assumes "insertAndPubFromlog_loop evs er = (Some err, er')" "events (unpublishedLog er) = evs"
  shows "\<exists>pre x post. evs = pre @ x # post \<and> events (unpublishedLog er') = x # post \<and>
           publishAll pre (bus er) = (None, bus er') \<and>
           (aggregateID x = [] \<or> IsZero (time x) \<or> isTerminating (bus er))"
  using assms
proof (induction evs arbitrary: er)
  case Nil
  then show ?case by simp
next
  case (Cons e rest)
  obtain r1 s' where i: "Insert e (eventStore er) = (r1, s')" by (cases "Insert e (eventStore er)")
  obtain r2 b' where p: "Publish (EventMsg e) (bus er) = (r2, b')"
    by (cases "Publish (EventMsg e) (bus er)")
  have q: "Pop e (unpublishedLog er) = (None, (unpublishedLog er)\<lparr>events := rest\<rparr>)"
    using Cons.prems(2) by (rule Pop_first)
  show ?case
  proof (cases r1)
    case (Some e1)
    then have "er' = er\<lparr>eventStore := s'\<rparr>" using Cons.prems(1) i by simp
    moreover have "aggregateID e = [] \<or> IsZero (time e)" using Insert_error i Some by blast
    ultimately have "e # rest = [] @ e # rest \<and> events (unpublishedLog er') = e # rest \<and>
           publishAll [] (bus er) = (None, bus er') \<and>
           (aggregateID e = [] \<or> IsZero (time e) \<or> isTerminating (bus er))"
      using Cons.prems(2) by auto
    then show ?thesis by blast
  next
    case None
    show ?thesis
    proof (cases r2)
      case (Some e2)
      then have trm: "isTerminating (bus er)" and same: "b' = bus er"
        using p by (auto simp: publishAction_def Let_def split: if_splits)
      have "er' = er\<lparr>eventStore := s', bus := b'\<rparr>" using Cons.prems(1) i p None Some by simp
      then have "e # rest = [] @ e # rest \<and> events (unpublishedLog er') = e # rest \<and>
           publishAll [] (bus er) = (None, bus er') \<and>
           (aggregateID e = [] \<or> IsZero (time e) \<or> isTerminating (bus er))"
        using Cons.prems(2) trm same by auto
      then show ?thesis by blast
    next
      case None2: None
      let ?er2 = "er\<lparr>eventStore := s', bus := b', unpublishedLog := (unpublishedLog er)\<lparr>events := rest\<rparr>\<rparr>"
      have step: "insertAndPubFromlog_loop rest ?er2 = (Some err, er')"
        using Cons.prems(1) i p q None None2 by simp
      have "\<exists>pre x post. rest = pre @ x # post \<and> events (unpublishedLog er') = x # post \<and>
           publishAll pre (bus ?er2) = (None, bus er') \<and>
           (aggregateID x = [] \<or> IsZero (time x) \<or> isTerminating (bus ?er2))"
        by (rule Cons.IH[OF step]) simp
      then obtain pre x post where ih: "rest = pre @ x # post" "events (unpublishedLog er') = x # post"
        "publishAll pre b' = (None, bus er')"
        "aggregateID x = [] \<or> IsZero (time x) \<or> isTerminating b'" by auto
      have tb: "isTerminating b' = isTerminating (bus er)"
        using Publish_event_result[OF p] by simp
      have "e # rest = (e # pre) @ x # post \<and> events (unpublishedLog er') = x # post \<and>
           publishAll (e # pre) (bus er) = (None, bus er') \<and>
           (aggregateID x = [] \<or> IsZero (time x) \<or> isTerminating (bus er))"
        using ih p None2 tb by auto
      then show ?thesis by blast
    qed
  qed
qed

lemma InsertAndPublish_loop:
  "InsertAndPublish e er = (r, er') \<Longrightarrow>
   \<exists>r0. insertAndPubFromlog_loop (events (unpublishedLog er) @ [e])
           (er\<lparr>unpublishedLog := (unpublishedLog er)\<lparr>events := events (unpublishedLog er) @ [e]\<rparr>\<rparr>)
         = (r0, er') \<and>
        r = map_option (\<lambda>x. Wrap x ''error hydrating from unpublished-log'') r0"
  by (auto simp: InsertAndPublish_def insertAndPubFromlog_def Events_def LogInsert_def Let_def
      split: prod.splits)

lemma Insert_error_same: "Insert e s = (Some err, s') \<Longrightarrow> s' = s"
  by (auto simp: Insert_def split: if_splits)

lemma loop_failure_blocked:
  assumes "insertAndPubFromlog_loop evs er = (Some err, er')" "events (unpublishedLog er) = evs"
  shows "\<exists>x post. events (unpublishedLog er') = x # post \<and>
           (fst (Insert x (eventStore er')) \<noteq> None \<or> isTerminating (bus er'))"
  using assms
proof (induction evs arbitrary: er)
  case Nil
  then show ?case by simp
next
  case (Cons e rest)
  obtain r1 s' where i: "Insert e (eventStore er) = (r1, s')" by (cases "Insert e (eventStore er)")
  obtain r2 b' where p: "Publish (EventMsg e) (bus er) = (r2, b')"
    by (cases "Publish (EventMsg e) (bus er)")
  have q: "Pop e (unpublishedLog er) = (None, (unpublishedLog er)\<lparr>events := rest\<rparr>)"
    using Cons.prems(2) by (rule Pop_first)
  show ?case
  proof (cases r1)
    case (Some e1)
    then have s: "s' = eventStore er" using Insert_error_same i by blast
    have "er' = er\<lparr>eventStore := s'\<rparr>" using Cons.prems(1) i Some by simp
    then have "events (unpublishedLog er') = e # rest \<and> fst (Insert e (eventStore er')) \<noteq> None"
      using Cons.prems(2) s i Some by simp
    then show ?thesis by blast
  next
    case None
    show ?thesis
    proof (cases r2)
      case (Some e2)
      then have trm: "isTerminating (bus er)" and same: "b' = bus er"
        using p by (auto simp: publishAction_def Let_def split: if_splits)
      have "er' = er\<lparr>eventStore := s', bus := b'\<rparr>" using Cons.prems(1) i p None Some by simp
      then have "events (unpublishedLog er') = e # rest \<and> isTerminating (bus er')"
        using Cons.prems(2) trm same by simp
      then show ?thesis by blast
    next
      case None2: None
      let ?er2 = "er\<lparr>eventStore := s', bus := b', unpublishedLog := (unpublishedLog er)\<lparr>events := rest\<rparr>\<rparr>"
      have step: "insertAndPubFromlog_loop rest ?er2 = (Some err, er')"
        using Cons.prems(1) i p q None None2 by simp
      show ?thesis by (rule Cons.IH[OF step]) simp
    qed
  qed
qed

lemma loop_blocked:
  assumes "events (unpublishedLog er) = x # rest"
    and "fst (Insert x (eventStore er)) \<noteq> None \<or> isTerminating (bus er)"
  shows "\<exists>err er2. insertAndPubFromlog_loop (x # rest) er = (Some err, er2) \<and>
           events (unpublishedLog er2) = x # rest \<and> bus er2 = bus er"
proof -
  obtain r1 s' where i: "Insert x (eventStore er) = (r1, s')" by (cases "Insert x (eventStore er)")
  show ?thesis
  proof (cases r1)
    case (Some e1)
    then show ?thesis using i assms(1) by simp
  next
    case None
    then have t: "isTerminating (bus er)" using assms(2) i by simp
    then obtain e2 where "Publish (EventMsg x) (bus er) = (Some e2, bus er)"
      using Publish_terminating by blast
    then show ?thesis using i None assms(1) by simp
  qed
qed

lemma InsertAndPublish_blocked:
  assumes "InsertAndPublish e er = (Some err, er')"
  shows "\<exists>err2 er2. InsertAndPublish e2 er' = (Some err2, er2) \<and>
           events (unpublishedLog er2) = events (unpublishedLog er') @ [e2] \<and> bus er2 = bus er'"
proof -
  let ?evs = "events (unpublishedLog er) @ [e]"
  let ?er1 = "er\<lparr>unpublishedLog := (unpublishedLog er)\<lparr>events := ?evs\<rparr>\<rparr>"
  from InsertAndPublish_loop[OF assms] obtain r0 where
    l0: "insertAndPubFromlog_loop ?evs ?er1 = (r0, er')"
    and r0: "Some err = map_option (\<lambda>x. Wrap x ''error hydrating from unpublished-log'') r0"
    by blast
  from r0 obtain err0 where "r0 = Some err0" by (cases r0) auto
  with l0 have loop: "insertAndPubFromlog_loop ?evs ?er1 = (Some err0, er')" by simp
  have lg: "events (unpublishedLog ?er1) = ?evs" by simp
  from loop_failure_blocked[OF loop lg] obtain x post where
    b: "events (unpublishedLog er') = x # post"
       "fst (Insert x (eventStore er')) \<noteq> None \<or> isTerminating (bus er')" by blast
  let ?er3 = "er'\<lparr>unpublishedLog := (unpublishedLog er')\<lparr>events := x # (post @ [e2])\<rparr>\<rparr>"
  have "\<exists>err er2. insertAndPubFromlog_loop (x # (post @ [e2])) ?er3 = (Some err, er2) \<and>
           events (unpublishedLog er2) = x # (post @ [e2]) \<and> bus er2 = bus ?er3"
    by (rule loop_blocked) (use b in simp_all)
  then obtain err3 er2 where n: "insertAndPubFromlog_loop (x # (post @ [e2])) ?er3 = (Some err3, er2)"
    "events (unpublishedLog er2) = x # (post @ [e2])" "bus er2 = bus er'" by auto
  have "InsertAndPublish e2 er' = (Some (Wrap err3 ''error hydrating from unpublished-log''), er2)"
    using n(1) b(1)
    by (simp add: InsertAndPublish_def insertAndPubFromlog_def Events_def LogInsert_def Let_def)
  then show ?thesis using n b(1) by simp
qed

lemma InsertAndPublish_success:
  assumes "InsertAndPublish e er = (None, er')"
  shows "(\<exists>x \<in> set (eventsIndex (eventStore er')). ev_id x = ev_id e) \<and>
      ((\<forall>x \<in> set (eventsIndex (eventStore er)) \<union> set (events (unpublishedLog er)).
           ev_id x = ev_id e \<longrightarrow> x = e) \<longrightarrow> e \<in> set (eventsIndex (eventStore er'))) \<and>
      events (unpublishedLog er') = [] \<and>
      publishAll (events (unpublishedLog er) @ [e]) (bus er) = (None, bus er') \<and>
      (\<forall>s \<in> set (subsOf (bus er') (action e)). isOpen s \<longrightarrow> buffer s \<noteq> [] \<and> last (buffer s) = EventMsg e)"
proof -
  let ?evs = "events (unpublishedLog er) @ [e]"
  let ?er1 = "er\<lparr>unpublishedLog := (unpublishedLog er)\<lparr>events := ?evs\<rparr>\<rparr>"
  from InsertAndPublish_loop[OF assms] have loop: "insertAndPubFromlog_loop ?evs ?er1 = (None, er')"
    by auto
  have lg: "events (unpublishedLog ?er1) = ?evs" by simp
  from loop_success[OF loop lg] have
    s1: "events (unpublishedLog er') = []" and
    s2: "publishAll ?evs (bus er) = (None, bus er')" and
    s3: "\<forall>y \<in> set ?evs. \<exists>x \<in> set (eventsIndex (eventStore er')). ev_id x = ev_id y"
    by simp_all
  from s3 have c1: "\<exists>x \<in> set (eventsIndex (eventStore er')). ev_id x = ev_id e" by simp
  have c2: "(\<forall>x \<in> set (eventsIndex (eventStore er)) \<union> set (events (unpublishedLog er)).
           ev_id x = ev_id e \<longrightarrow> x = e) \<longrightarrow> e \<in> set (eventsIndex (eventStore er'))"
  proof
    assume u: "\<forall>x \<in> set (eventsIndex (eventStore er)) \<union> set (events (unpublishedLog er)).
           ev_id x = ev_id e \<longrightarrow> x = e"
    have "e \<in> set (eventsIndex (eventStore er'))"
      by (rule loop_member[OF loop]) (use u in auto)
    then show "e \<in> set (eventsIndex (eventStore er'))" .
  qed
  from publishAll_snoc[OF s2] obtain b1 where "Publish (EventMsg e) b1 = (None, bus er')" by blast
  from Publish_delivers[OF this] have c5:
    "\<forall>s \<in> set (subsOf (bus er') (action e)). isOpen s \<longrightarrow> buffer s \<noteq> [] \<and> last (buffer s) = EventMsg e" .
  show ?thesis using c1 c2 s1 s2 c5 by (intro conjI)
qed

lemma InsertAndPublish_failure:
  assumes "InsertAndPublish e er = (Some err, er')"
  shows "(\<exists>pre x post. events (unpublishedLog er) @ [e] = pre @ x # post \<and>
          events (unpublishedLog er') = x # post \<and>
          publishAll pre (bus er) = (None, bus er') \<and>
          (aggregateID x = [] \<or> IsZero (time x) \<or> isTerminating (bus er))) \<and>
      e \<in> set (events (unpublishedLog er'))"
proof -
  let ?evs = "events (unpublishedLog er) @ [e]"
  let ?er1 = "er\<lparr>unpublishedLog := (unpublishedLog er)\<lparr>events := ?evs\<rparr>\<rparr>"
  from InsertAndPublish_loop[OF assms] obtain r0 where
    l0: "insertAndPubFromlog_loop ?evs ?er1 = (r0, er')"
    and r0: "Some err = map_option (\<lambda>x. Wrap x ''error hydrating from unpublished-log'') r0"
    by blast
  from r0 obtain err0 where "r0 = Some err0" by (cases r0) auto
  with l0 have loop: "insertAndPubFromlog_loop ?evs ?er1 = (Some err0, er')" by simp
  have lg: "events (unpublishedLog ?er1) = ?evs" by simp
  from loop_failure[OF loop lg] obtain pre x post where
    f: "?evs = pre @ x # post" "events (unpublishedLog er') = x # post"
       "publishAll pre (bus er) = (None, bus er')"
       "aggregateID x = [] \<or> IsZero (time x) \<or> isTerminating (bus er)"
    by auto
  have "last ?evs = last (x # post)" using f(1) by simp
  then have "e = last (x # post)" by simp
  then have "e \<in> set (x # post)" using last_in_set[of "x # post"] by simp
  then have m: "e \<in> set (events (unpublishedLog er'))" using f(2) by simp
  from f m show ?thesis by blast
qed

lemma publishAction_running:
  "\<not> isTerminating b \<Longrightarrow> fst (publishAction act msg b) = None \<and> \<not> isTerminating (snd (publishAction act msg b))"
  by (simp add: publishAction_def Let_def ensureActionChan_def)

lemma InsertAndPublish_fresh:
  assumes "events (unpublishedLog er) = []" "\<not> isTerminating (bus er)"
    "\<forall>x \<in> set (eventsIndex (eventStore er)). ev_id x \<noteq> ev_id ev"
    "aggregateID ev \<noteq> []" "\<not> IsZero (time ev)"
  shows "fst (InsertAndPublish ev er) = None \<and>
         eventsIndex (eventStore (snd (InsertAndPublish ev er))) = eventsIndex (eventStore er) @ [ev] \<and>
         Fetch (eventStore (snd (InsertAndPublish ev er))) (aggregateID ev)
           = Fetch (eventStore er) (aggregateID ev) @ [ev] \<and>
         events (unpublishedLog (snd (InsertAndPublish ev er))) = [] \<and>
         bus (snd (InsertAndPublish ev er)) = snd (Publish (EventMsg ev) (bus er))"
proof -
  have ins: "Insert ev (eventStore er) = (None, (eventStore er)\<lparr>store := (store (eventStore er))(aggregateID ev \<mapsto> Fetch (eventStore er) (aggregateID ev) @ [ev]),
                               eventsIndex := eventsIndex (eventStore er) @ [ev]\<rparr>)"
    using assms by (intro Insert_fresh_valid) auto
  obtain b' where pub: "Publish (EventMsg ev) (bus er) = (None, b')"
    using publishAction_running[OF assms(2), of "action ev" "EventMsg ev"]
    by (cases "publishAction (action ev) (EventMsg ev) (bus er)") auto
  have lg: "LogInsert ev (unpublishedLog er) = \<lparr>events = [ev]\<rparr>"
    using assms(1) by (cases "unpublishedLog er") (simp add: LogInsert_def)
  show ?thesis
    using ins pub lg
    by (simp add: InsertAndPublish_def insertAndPubFromlog_def Events_def Pop_def Fetch_def)
qed

text \<open>
  C6. When \<open>InsertAndPublish e\<close> returns success, the store holds an event with the id of
  \<open>e\<close> (and \<open>e\<close> itself when no stored or queued event had its id with other content), the
  unpublished log is empty, so \<open>e\<close> is no longer in it, and the bus is the one reached by
  publishing the queued events and then \<open>e\<close>, in order: every open subscription of the action
  of \<open>e\<close> has \<open>e\<close> as its last message. When it returns an error, the queued events before
  the failed one have been published and popped, and the log holds the failed event and
  all events behind it, \<open>e\<close> among them, in order; the failed event was rejected by the store
  (blank aggregate-id or zero time) or the bus is terminating. The next call starts with
  the same queued events: in this implementation the cause of the failure persists, so
  the next call fails again and the new event waits behind them.
\<close>

theorem InsertAndPublish_outbox:
  "(InsertAndPublish e er = (None, er') \<longrightarrow>
      (\<exists>x \<in> set (eventsIndex (eventStore er')). ev_id x = ev_id e) \<and>
      ((\<forall>x \<in> set (eventsIndex (eventStore er)) \<union> set (events (unpublishedLog er)).
           ev_id x = ev_id e \<longrightarrow> x = e) \<longrightarrow> e \<in> set (eventsIndex (eventStore er'))) \<and>
      events (unpublishedLog er') = [] \<and>
      publishAll (events (unpublishedLog er) @ [e]) (bus er) = (None, bus er') \<and>
      (\<forall>s \<in> set (subsOf (bus er') (action e)). isOpen s \<longrightarrow> buffer s \<noteq> [] \<and> last (buffer s) = EventMsg e))
   \<and>
   (InsertAndPublish e er = (Some err, er') \<longrightarrow>
      (\<exists>pre x post. events (unpublishedLog er) @ [e] = pre @ x # post \<and>
          events (unpublishedLog er') = x # post \<and>
          publishAll pre (bus er) = (None, bus er') \<and>
          (aggregateID x = [] \<or> IsZero (time x) \<or> isTerminating (bus er))) \<and>
      e \<in> set (events (unpublishedLog er')) \<and>
      (\<forall>e2. \<exists>err2 er2. InsertAndPublish e2 er' = (Some err2, er2) \<and>
          events (unpublishedLog er2) = events (unpublishedLog er') @ [e2] \<and> bus er2 = bus er'))"
proof (intro conjI impI)
  assume ok: "InsertAndPublish e er = (None, er')"
  note s = InsertAndPublish_success[OF ok]
  show "\<exists>x \<in> set (eventsIndex (eventStore er')). ev_id x = ev_id e" using s by simp
  show "events (unpublishedLog er') = []" using s by simp
  show "publishAll (events (unpublishedLog er) @ [e]) (bus er) = (None, bus er')" using s by simp
  show "\<forall>s \<in> set (subsOf (bus er') (action e)). isOpen s \<longrightarrow> buffer s \<noteq> [] \<and> last (buffer s) = EventMsg e"
    using s by simp
next
  assume ok: "InsertAndPublish e er = (None, er')"
    and u: "\<forall>x \<in> set (eventsIndex (eventStore er)) \<union> set (events (unpublishedLog er)).
           ev_id x = ev_id e \<longrightarrow> x = e"
  show "e \<in> set (eventsIndex (eventStore er'))"
    using InsertAndPublish_success[OF ok] u by blast
next
  assume bad: "InsertAndPublish e er = (Some err, er')"
  note f = InsertAndPublish_failure[OF bad]
  show "\<exists>pre x post. events (unpublishedLog er) @ [e] = pre @ x # post \<and>
          events (unpublishedLog er') = x # post \<and>
          publishAll pre (bus er) = (None, bus er') \<and>
          (aggregateID x = [] \<or> IsZero (time x) \<or> isTerminating (bus er))"
    using f by simp
  show "e \<in> set (events (unpublishedLog er'))" using f by simp
  show "\<forall>e2. \<exists>err2 er2. InsertAndPublish e2 er' = (Some err2, er2) \<and>
          events (unpublishedLog er2) = events (unpublishedLog er') @ [e2] \<and> bus er2 = bus er'"
    using InsertAndPublish_blocked[OF bad] by blast
qed

theorem InsertAndPublish_outbox_witness:
  "InsertAndPublish sampleEvent sampleRepo = (None, snd (InsertAndPublish sampleEvent sampleRepo)) \<and>
   eventsIndex (eventStore sampleRepo) = [] \<and> events (unpublishedLog sampleRepo) = [] \<and>
   sampleEvent \<in> set (eventsIndex (eventStore (snd (InsertAndPublish sampleEvent sampleRepo)))) \<and>
   events (unpublishedLog (snd (InsertAndPublish sampleEvent sampleRepo))) = [] \<and>
   InsertAndPublish blankEvent sampleRepo
     = (Some (Wrap (Wrap (New ''aggregate-id is blank'') ''error inserting event in event-store'')
                ''error hydrating from unpublished-log''),
        snd (InsertAndPublish blankEvent sampleRepo)) \<and>
   blankEvent \<in> set (events (unpublishedLog (snd (InsertAndPublish blankEvent sampleRepo)))) \<and>
   InsertAndPublish sampleEvent (snd (InsertAndPublish blankEvent sampleRepo))
     = (Some (Wrap (Wrap (New ''aggregate-id is blank'') ''error inserting event in event-store'')
                ''error hydrating from unpublished-log''),
        snd (InsertAndPublish sampleEvent (snd (InsertAndPublish blankEvent sampleRepo))))"
proof -
  have e0: "eventsIndex (eventStore sampleRepo) = []" "events (unpublishedLog sampleRepo) = []"
    by (simp_all add: sampleRepo_def NewMemoryEventStore_def NewMemoryUnpublishedLog_def)
  have "fst (InsertAndPublish sampleEvent sampleRepo) = None"
    using InsertAndPublish_fresh[of sampleRepo sampleEvent] e0
    by (simp add: sampleRepo_def NewMemoryBus_def sampleEvent_def IsZero_def t_2000_01_01_def)
  then have h1: "InsertAndPublish sampleEvent sampleRepo = (None, snd (InsertAndPublish sampleEvent sampleRepo))"
    by (simp add: prod_eq_iff)
  have h2: "InsertAndPublish blankEvent sampleRepo
     = (Some (Wrap (Wrap (New ''aggregate-id is blank'') ''error inserting event in event-store'')
                ''error hydrating from unpublished-log''),
        snd (InsertAndPublish blankEvent sampleRepo))"
    by (simp add: InsertAndPublish_def insertAndPubFromlog_def Events_def LogInsert_def
        sampleRepo_def NewMemoryEventStore_def NewMemoryUnpublishedLog_def Insert_def
        blankEvent_def Let_def)
  have lg: "events (unpublishedLog (snd (InsertAndPublish blankEvent sampleRepo))) = [blankEvent]"
    by (simp add: InsertAndPublish_def insertAndPubFromlog_def Events_def LogInsert_def
        sampleRepo_def NewMemoryEventStore_def NewMemoryUnpublishedLog_def Insert_def
        blankEvent_def Let_def)
  have h3: "InsertAndPublish sampleEvent (snd (InsertAndPublish blankEvent sampleRepo))
     = (Some (Wrap (Wrap (New ''aggregate-id is blank'') ''error inserting event in event-store'')
                ''error hydrating from unpublished-log''),
        snd (InsertAndPublish sampleEvent (snd (InsertAndPublish blankEvent sampleRepo))))"
    by (simp add: InsertAndPublish_def insertAndPubFromlog_def Events_def LogInsert_def
        sampleRepo_def NewMemoryEventStore_def NewMemoryUnpublishedLog_def Insert_def
        blankEvent_def Let_def)
  note t1 = InsertAndPublish_outbox[of sampleEvent sampleRepo "snd (InsertAndPublish sampleEvent sampleRepo)"]
  note t2 = InsertAndPublish_outbox[of blankEvent sampleRepo "snd (InsertAndPublish blankEvent sampleRepo)"
      "Wrap (Wrap (New ''aggregate-id is blank'') ''error inserting event in event-store'')
                ''error hydrating from unpublished-log''"]
  have c1: "sampleEvent \<in> set (eventsIndex (eventStore (snd (InsertAndPublish sampleEvent sampleRepo))))"
    using t1 h1 e0 by simp
  have c2: "events (unpublishedLog (snd (InsertAndPublish sampleEvent sampleRepo))) = []"
    using t1 h1 by blast
  have c3: "blankEvent \<in> set (events (unpublishedLog (snd (InsertAndPublish blankEvent sampleRepo))))"
    using t2 h2 by blast
  show ?thesis using h1 e0 c1 c2 h2 c3 h3 by (intro conjI)
qed

section \<open>Replay of the aggregate\<close>

lemma ensureYear_daily: "dailyTxn (ensureYear y a) y \<noteq> None"
  by (simp add: ensureYear_def Let_def)

lemma ensureYear_weekly: "weeklyTxn (ensureYear y a) y \<noteq> None"
  by (simp add: ensureYear_def Let_def)

lemma ensureYear_fields:
  "balance (ensureYear y a) = balance a"
  "txnKeysRecord (ensureYear y a) = txnKeysRecord a"
  "custID (ensureYear y a) = custID a"
  "eventRepo (ensureYear y a) = eventRepo a"
  "dailyLimits (ensureYear y a) = dailyLimits a"
  "weeklyLimits (ensureYear y a) = weeklyLimits a"
  "accountDeposited (ensureYear y a) = accountDeposited a"
  "accountWithdrawn (ensureYear y a) = accountWithdrawn a"
  "duplicateTxn (ensureYear y a) = duplicateTxn a"
  "accountLimitExceeded (ensureYear y a) = accountLimitExceeded a"
  by (simp_all add: ensureYear_def Let_def)

lemma applyEvent_decoded:
  assumes "unmarshalState (data event) = Inr state"
  shows "\<exists>a'. applyEvent event a = (None, a') \<and>
           balance a' = StateTotalAmount state \<and>
           txnKeysRecord a' = txnKeysRecord a @ [TxnID state] \<and>
           custID a' = custID a \<and> eventRepo a' = eventRepo a \<and>
           lookupTxn (dailyTxn a') (fst (ISOWeek (TxnTime state))) (YearDay (TxnTime state))
             = DailyTxn state \<and>
           lookupTxn (weeklyTxn a') (fst (ISOWeek (TxnTime state))) (snd (ISOWeek (TxnTime state)))
             = WeeklyTxn state"
proof -
  obtain y w where yw: "ISOWeek (TxnTime state) = (y, w)" by (cases "ISOWeek (TxnTime state)")
  obtain md where md: "dailyTxn (ensureYear y a) y = Some md"
    using ensureYear_daily[of y a] by auto
  obtain mw where mw: "weeklyTxn (ensureYear y a) y = Some mw"
    using ensureYear_weekly[of y a] by auto
  show ?thesis
    using assms yw md mw
    by (simp add: applyEvent_def storeTxn_def lookupTxn_def ensureYear_fields Let_def)
qed

lemma applyEvents_append:
  "applyEvents (xs @ ys) a =
     (case applyEvents xs a of (Some err, a') \<Rightarrow> (Some err, a') | (None, a') \<Rightarrow> applyEvents ys a')"
  by (induction xs arbitrary: a) (auto split: prod.splits option.splits)

lemma applyEvents_decodable:
  "\<forall>e \<in> set evs. \<exists>s. unmarshalState (data e) = Inr s \<Longrightarrow>
   \<exists>a'. applyEvents evs a = (None, a') \<and> custID a' = custID a \<and> eventRepo a' = eventRepo a"
proof (induction evs arbitrary: a)
  case Nil
  then show ?case by simp
next
  case (Cons e evs)
  then obtain s where s: "unmarshalState (data e) = Inr s" by auto
  from applyEvent_decoded[OF s, of a] obtain a1 where
    a1: "applyEvent e a = (None, a1)" "custID a1 = custID a" "eventRepo a1 = eventRepo a" by blast
  from Cons.IH[of a1] Cons.prems obtain a' where
    "applyEvents evs a1 = (None, a')" "custID a' = custID a1" "eventRepo a' = eventRepo a1" by auto
  with a1 show ?case by simp
qed





text \<open>
  Two runs of the handler on the same deposit: the first stores an \<open>AccountDeposited\<close>
  event, the second a \<open>DuplicateTxn\<close> event, both under the customer's aggregate-id.
\<close>

lemma t_2000_01_05_nonzero: "t_2000_01_05 \<noteq> 0"
  by (simp add: t_2000_01_05_def)

lemmas handler_defs = handleProcessTxnCmd_def loadAggregate_def
      RepoFetch_def Fetch_def sampleAccount_def sampleRepo_def NewMemoryEventStore_def
      NewMemoryBus_def NewMemoryUnpublishedLog_def
      ensureYear_def checkDuplicateTxn_def checkDailyLimits_def checkWeeklyLimits_def
      validateLimits_def lookupTxn_def addTxn_def zeroTxnRecord_def storeTxn_def
      Year_2000_01_05 YearDay_2000_01_05 ISOWeek_2000_01_05 publishEvent_def NewEvent_def Let_def
      InsertAndPublish_def insertAndPubFromlog_def Events_def LogInsert_def Insert_def Pop_def
      publishAction_def ensureActionChan_def subsOf_def IsZero_def applyEvent_def
      cmd1000_def txn1000_def t_2000_01_05_nonzero AccountDeposited_def AccountWithdrawn_def
      DuplicateTxn_def AccountLimitExceeded_def

lemma afterDeposit_eval:
  "afterDeposit = sampleRepo\<lparr>
     bus := \<lparr>isTerminating = False, subscriptions = [''AccountDeposited'' \<mapsto> []], nextChannel = 0\<rparr>,
     eventStore := \<lparr>store = [''528'' \<mapsto>
       [\<lparr>ev_id = ''e1'', aggregateID = ''528'', correlationKey = ''c9'', time = t_2000_01_05,
          action = ''AccountDeposited'',
          data = StateJSON \<lparr>TxnID = ''t2'', CustID = ''528'', TxnTime = t_2000_01_05,
                    DailyTxn = \<lparr>NumTxns = 1, TotalAmount = 1000\<rparr>,
                    WeeklyTxn = \<lparr>NumTxns = 1, TotalAmount = 1000\<rparr>, StateTotalAmount = 1000\<rparr>,
          isReplay = False\<rparr>]],
       eventsIndex =
       [\<lparr>ev_id = ''e1'', aggregateID = ''528'', correlationKey = ''c9'', time = t_2000_01_05,
          action = ''AccountDeposited'',
          data = StateJSON \<lparr>TxnID = ''t2'', CustID = ''528'', TxnTime = t_2000_01_05,
                    DailyTxn = \<lparr>NumTxns = 1, TotalAmount = 1000\<rparr>,
                    WeeklyTxn = \<lparr>NumTxns = 1, TotalAmount = 1000\<rparr>, StateTotalAmount = 1000\<rparr>,
          isReplay = False\<rparr>]\<rparr>\<rparr>"
  unfolding afterDeposit_def
  by (simp add: handler_defs)

lemma afterDuplicate_fetch: "RepoFetch afterDuplicate ''528'' = [depositEvent] @ [duplicateEvent]"
  unfolding afterDuplicate_def afterDeposit_eval
  by (simp add: handler_defs depositEvent_def duplicateEvent_def)

lemma newAccount_sampleCfg: "newAccount sampleCfg = Inr sampleAccount"
  by (simp add: newAccount_def validateCfg_def sampleCfg_def sampleAccount_def
      AccountDeposited_def AccountWithdrawn_def DuplicateTxn_def AccountLimitExceeded_def)

text \<open>
  C10. Failure events are replayed as if they were state events. When the events fetched
  for a customer end in an event whose payload is a \<open>TxnFailure\<close> (and the earlier
  payloads decode), \<open>loadAggregate\<close> succeeds and the rebuilt aggregate has balance 0,
  whatever the earlier events set, and the empty string as the last entry of
  \<open>txnKeysRecord\<close>.
\<close>

theorem loadAggregate_after_failure_event:
  assumes fetched: "RepoFetch (eventRepo a) cust = evs @ [f]"
    and failure: "data f = TxnFailureJSON tf"
    and decodable: "\<forall>e \<in> set evs. \<exists>s. unmarshalState (data e) = Inr s"
  shows "\<exists>a1 a'. applyEvents evs (a\<lparr>custID := cust\<rparr>) = (None, a1) \<and>
           loadAggregate cust a = (None, a') \<and>
           balance a' = 0 \<and>
           txnKeysRecord a' = txnKeysRecord a1 @ [[]]"
proof -
  from applyEvents_decodable[OF decodable, of "a\<lparr>custID := cust\<rparr>"]
  obtain a1 where a1: "applyEvents evs (a\<lparr>custID := cust\<rparr>) = (None, a1)" by blast
  have dec: "unmarshalState (data f) = Inr zeroState" using failure by simp
  from applyEvent_decoded[OF dec, of a1] obtain a' where
    a': "applyEvent f a1 = (None, a')" "balance a' = 0" "txnKeysRecord a' = txnKeysRecord a1 @ [[]]"
    by (auto simp: zeroState_def)
  have "loadAggregate cust a = (None, a')"
    using fetched a1 a' by (simp add: loadAggregate_def applyEvents_append)
  with a1 a' show ?thesis by blast
qed

theorem loadAggregate_after_failure_event_witness:
  "RepoFetch (eventRepo (sampleAccount\<lparr>eventRepo := afterDuplicate\<rparr>)) ''528''
     = [depositEvent] @ [duplicateEvent] \<and>
   data duplicateEvent = TxnFailureJSON \<lparr>Txn = txn1000, Error = New ''duplicate transaction'',
                                          FailureCause = DuplicateTxnCause\<rparr> \<and>
   unmarshalState (data depositEvent)
     = Inr \<lparr>TxnID = ''t2'', CustID = ''528'', TxnTime = t_2000_01_05,
            DailyTxn = \<lparr>NumTxns = 1, TotalAmount = 1000\<rparr>,
            WeeklyTxn = \<lparr>NumTxns = 1, TotalAmount = 1000\<rparr>, StateTotalAmount = 1000\<rparr> \<and>
   (\<exists>a1 a'. applyEvents [depositEvent] (sampleAccount\<lparr>eventRepo := afterDuplicate\<rparr>\<lparr>custID := ''528''\<rparr>)
                = (None, a1) \<and>
      balance a1 = 1000 \<and>
      loadAggregate ''528'' (sampleAccount\<lparr>eventRepo := afterDuplicate\<rparr>) = (None, a') \<and>
      balance a' = 0 \<and> txnKeysRecord a' = txnKeysRecord a1 @ [[]])"
proof -
  let ?a = "sampleAccount\<lparr>eventRepo := afterDuplicate\<rparr>"
  have h1: "RepoFetch (eventRepo ?a) ''528'' = [depositEvent] @ [duplicateEvent]"
    using afterDuplicate_fetch by simp
  have h2: "data duplicateEvent = TxnFailureJSON \<lparr>Txn = txn1000, Error = New ''duplicate transaction'',
                                          FailureCause = DuplicateTxnCause\<rparr>"
    by (simp add: duplicateEvent_def)
  have d: "unmarshalState (data depositEvent)
     = Inr \<lparr>TxnID = ''t2'', CustID = ''528'', TxnTime = t_2000_01_05,
            DailyTxn = \<lparr>NumTxns = 1, TotalAmount = 1000\<rparr>,
            WeeklyTxn = \<lparr>NumTxns = 1, TotalAmount = 1000\<rparr>, StateTotalAmount = 1000\<rparr>"
    by (simp add: depositEvent_def)
  have h3: "\<forall>e \<in> set [depositEvent]. \<exists>s. unmarshalState (data e) = Inr s"
    using d by simp
  from loadAggregate_after_failure_event[OF h1 h2 h3] obtain a1 a' where
    r: "applyEvents [depositEvent] (?a\<lparr>custID := ''528''\<rparr>) = (None, a1)"
       "loadAggregate ''528'' ?a = (None, a')" "balance a' = 0"
       "txnKeysRecord a' = txnKeysRecord a1 @ [[]]"
    by blast
  from applyEvent_decoded[OF d, of "?a\<lparr>custID := ''528''\<rparr>"] obtain a2 where
    a2: "applyEvent depositEvent (?a\<lparr>custID := ''528''\<rparr>) = (None, a2)" "balance a2 = 1000"
    by auto
  have "a1 = a2" using r(1) a2(1) by simp
  then have b1: "balance a1 = 1000" using a2(2) by simp
  have ex: "\<exists>a1 a'. applyEvents [depositEvent] (?a\<lparr>custID := ''528''\<rparr>) = (None, a1) \<and>
      balance a1 = 1000 \<and> loadAggregate ''528'' ?a = (None, a') \<and>
      balance a' = 0 \<and> txnKeysRecord a' = txnKeysRecord a1 @ [[]]"
    using r b1 by blast
  show ?thesis using h1 h2 d ex by (intro conjI)
qed

text \<open>
  C3 at 2000-01-01T00:00:00Z, a Saturday of ISO week 52 of 1999. \<open>applyEvent\<close> files the
  daily record of a replayed event under the ISO week-year, here (1999, 1), while
  \<open>checkDailyLimits\<close> reads under the civil year, (2000, 1): after the replay of one
  accepted deposit of that day the daily check of a second transaction of the same day
  finds the zero record, and its trial record counts one transaction, not two.
\<close>

theorem replay_daily_bucket_2000_01_01:
  "Year t_2000_01_01 = 2000 \<and> YearDay t_2000_01_01 = 1 \<and> ISOWeek t_2000_01_01 = (1999, 52) \<and>
   fst (loadAggregate ''528'' janAccount) = None \<and>
   lookupTxn (dailyTxn (snd (loadAggregate ''528'' janAccount))) 1999 1 = \<lparr>NumTxns = 1, TotalAmount = 100\<rparr> \<and>
   lookupTxn (dailyTxn (snd (loadAggregate ''528'' janAccount))) 2000 1 = zeroTxnRecord \<and>
   fst (checkDailyLimits ''e9'' t_2000_01_05 ''c9'' txnJan
          (ensureYear (Year (Time txnJan)) (snd (loadAggregate ''528'' janAccount))))
     = Some \<lparr>NumTxns = 1, TotalAmount = 100\<rparr>"
proof -
  have l: "loadAggregate ''528'' janAccount =
      (None, janAccount\<lparr>custID := ''528'',
               dailyTxn := [1999 \<mapsto> [1 \<mapsto> \<lparr>NumTxns = 1, TotalAmount = 100\<rparr>]],
               weeklyTxn := [1999 \<mapsto> [52 \<mapsto> \<lparr>NumTxns = 1, TotalAmount = 100\<rparr>]],
               txnKeysRecord := [''15887''], balance := 100\<rparr>)"
    by (simp add: loadAggregate_def RepoFetch_def Fetch_def janAccount_def sampleAccount_def
        sampleRepo_def applyEvent_def sampleEvent_def sampleState_def ISOWeek_2000_01_01
        YearDay_2000_01_01 ensureYear_def storeTxn_def Let_def)
  show ?thesis
    unfolding l
    by (simp add: Year_2000_01_01 YearDay_2000_01_01 ISOWeek_2000_01_01 lookupTxn_def
        zeroTxnRecord_def txnJan_def checkDailyLimits_def validateLimits_def addTxn_def
        ensureYear_def janAccount_def sampleAccount_def Let_def)
qed

section \<open>Limits\<close>




section \<open>The command handler of the account\<close>


lemma publishEvent_blank:
  assumes "custID a = []"
  shows "\<exists>err. publishEvent newID now ck act d a = (Some err, a)"
  using assms by (simp add: publishEvent_def NewEvent_def)












section \<open>The projection\<close>

















section \<open>The transaction creator\<close>








text \<open>
  An amount of a single character, such as \<open>5\<close>, is rejected as empty: the test
  \<open>LoadAmount[1:] == ""\<close> takes the first character for the \<open>$\<close> prefix.
\<close>

lemma createTxn_single_character:
  assumes "req_ID req \<noteq> []" "req_CustomerID req \<noteq> []" "length (req_LoadAmount req) = 1"
  shows "createTxn parseFloat parseTime tc req = (Inl (New ''LoadAmount cannot be empty''), req)"
  using assms by (simp add: createTxn_def)

end
